theory Spec2Isabelle
  imports Complex_Main
begin

section \<open>Explicit 2D heat diffusion on a square plate (feb13/calculo_disipacion_calor.py)\<close>

text \<open>
  The simulator keeps an N x N array of temperatures, fixes its four edges (Dirichlet
  conditions) and advances the interior with the explicit five-point stencil.

  Numbers: Python's \<open>int\<close> is \<open>int\<close>. A cell of the array and a field of the
  configuration that holds a \<open>float\<close> is a \<open>real\<close>: the finite doubles are among the
  reals, an infinity and NaN are not. The theorems below about the stencil formula, the
  edges, the corners, the frame of a step, the command line and the render schedule use
  no law of real arithmetic: they say which cell is read, written or left alone, and in
  which order.

  What the program computes in double precision and what depends on rounding, overflow
  or NaN is not embedded: the time step \<open>dt\<close> and the diffusion number \<open>r\<close> that
  \<open>__init__\<close> derives from the configuration are the fields \<open>self_dt\<close> and \<open>self_r\<close>
  of a state, whatever their values; the block \<open>_bloque_por_temperatura\<close> draws for a
  cell and the behaviour of \<open>time.sleep\<close> are parameters of the run loop.

  Every \<open>raise\<close> of the source is a value \<open>Inl e\<close> of a sum type; a method that
  mutates \<open>self\<close> or its array argument returns the updated value.
\<close>

subsection \<open>Errors\<close>

datatype error = IndexError | ValueError | ZeroDivisionError | OverflowError | SystemExit

definition bindE :: "error + 'a \<Rightarrow> ('a \<Rightarrow> error + 'b) \<Rightarrow> error + 'b" where
  "bindE m f = (case m of Inl e \<Rightarrow> Inl e | Inr x \<Rightarrow> f x)"

subsection \<open>The configuration (dataclass ConfiguracionSimulacion)\<close>

record ConfiguracionSimulacion =
  cfg_n :: int
  alpha :: real
  dx :: real
  pasos :: int
  cada_render :: int
  pausa :: real
  factor_seguridad_cfl :: real
  t_arriba :: real
  t_abajo :: real
  t_izquierda :: real
  t_derecha :: real

text \<open>
  The dataclass's defaults; the literals \<open>0.03\<close> and \<open>0.95\<close> are written as the
  decimals they spell.
\<close>

definition cfg_default :: ConfiguracionSimulacion where
  "cfg_default =
     \<lparr> cfg_n = 20, alpha = 1, dx = 1, pasos = 500, cada_render = 5, pausa = 3 / 100,
       factor_seguridad_cfl = 95 / 100,
       t_arriba = 100, t_abajo = 0, t_izquierda = 30, t_derecha = 30 \<rparr>"

subsection \<open>Arrays: indexing, slices, element-wise arithmetic\<close>

text \<open>
  A two-dimensional array is the list of its rows. The arrays of the program are
  rectangular; \<open>forma\<close> says so.
\<close>

type_synonym matriz = "real list list"

definition ncols :: "'a list list \<Rightarrow> nat" where
  "ncols m = (case m of [] \<Rightarrow> 0 | fila # _ \<Rightarrow> length fila)"

definition forma :: "nat \<Rightarrow> nat \<Rightarrow> 'a list list \<Rightarrow> bool" where
  "forma a b m = (length m = a \<and> list_all (\<lambda>fila. length fila = b) m)"

text \<open>
  An integer index on an axis of size \<open>len\<close>: a negative index counts from the end, an
  index out of bounds raises IndexError.
\<close>

definition py_index :: "int \<Rightarrow> nat \<Rightarrow> error + nat" where
  "py_index i len =
     (let j = (if i < 0 then int len + i else i)
      in if 0 \<le> j \<and> j < int len then Inr (nat j) else Inl IndexError)"

text \<open>
  A slice bound on an axis of size \<open>len\<close>: a negative bound counts from the end, and the
  result is clipped to \<open>0 .. len\<close>; an omitted start is 0, an omitted stop is \<open>len\<close>.
\<close>

definition slice_bound :: "int \<Rightarrow> nat \<Rightarrow> nat" where
  "slice_bound i len = (if i < 0 then nat (max 0 (int len + i)) else min (nat i) len)"

definition slice_start :: "int option \<Rightarrow> nat \<Rightarrow> nat" where
  "slice_start a len = (case a of None \<Rightarrow> 0 | Some i \<Rightarrow> slice_bound i len)"

definition slice_stop :: "int option \<Rightarrow> nat \<Rightarrow> nat" where
  "slice_stop b len = (case b of None \<Rightarrow> len | Some i \<Rightarrow> slice_bound i len)"

text \<open>\<open>xs[a:b]\<close>, read.\<close>

definition py_slice :: "int option \<Rightarrow> int option \<Rightarrow> 'a list \<Rightarrow> 'a list" where
  "py_slice a b xs =
     (let s = slice_start a (length xs); e = slice_stop b (length xs)
      in take (e - s) (drop s xs))"

text \<open>\<open>m[a:b, c:d]\<close>, read.\<close>

definition py_slice2 ::
  "int option \<Rightarrow> int option \<Rightarrow> int option \<Rightarrow> int option \<Rightarrow> 'a list list \<Rightarrow> 'a list list" where
  "py_slice2 a b c d m = map (py_slice c d) (py_slice a b m)"

text \<open>\<open>xs[a:b] = ys\<close>, for \<open>ys\<close> of the slice's own size (an array never changes size).\<close>

definition set_slice :: "int option \<Rightarrow> int option \<Rightarrow> 'a list \<Rightarrow> 'a list \<Rightarrow> 'a list" where
  "set_slice a b xs ys =
     (let s = slice_start a (length xs); e = slice_stop b (length xs)
      in take s xs @ ys @ drop (max s e) xs)"

text \<open>\<open>m[a:b, c:d] = x\<close>, for \<open>x\<close> of the slice's own shape.\<close>

definition set_slice2 ::
  "int option \<Rightarrow> int option \<Rightarrow> int option \<Rightarrow> int option \<Rightarrow> 'a list list \<Rightarrow> 'a list list
     \<Rightarrow> 'a list list" where
  "set_slice2 a b c d m x =
     set_slice a b m (map2 (set_slice c d) (py_slice a b m) x)"

text \<open>Element-wise sum and difference of two arrays of one shape, and a scalar times an array.\<close>

definition mat_add :: "matriz \<Rightarrow> matriz \<Rightarrow> matriz" where
  "mat_add x y = map2 (map2 (+)) x y"

definition mat_sub :: "matriz \<Rightarrow> matriz \<Rightarrow> matriz" where
  "mat_sub x y = map2 (map2 (-)) x y"

definition esc_mul :: "real \<Rightarrow> matriz \<Rightarrow> matriz" where
  "esc_mul c x = map (map ((*) c)) x"


text \<open>
  \<open>m[i, :] = v\<close> and \<open>m[:, j] = v\<close>: the index is resolved on its axis, then every
  cell of that row (of that column) is overwritten.
\<close>

definition llenar_fila :: "nat \<Rightarrow> 'a \<Rightarrow> 'a list list \<Rightarrow> 'a list list" where
  "llenar_fila k v m = m[k := map (\<lambda>_. v) (m ! k)]"

definition llenar_columna :: "nat \<Rightarrow> 'a \<Rightarrow> 'a list list \<Rightarrow> 'a list list" where
  "llenar_columna k v m = map (\<lambda>fila. fila[k := v]) m"

definition set_fila :: "int \<Rightarrow> 'a \<Rightarrow> 'a list list \<Rightarrow> error + 'a list list" where
  "set_fila i v m = bindE (py_index i (length m)) (\<lambda>k. Inr (llenar_fila k v m))"

definition set_columna :: "int \<Rightarrow> 'a \<Rightarrow> 'a list list \<Rightarrow> error + 'a list list" where
  "set_columna j v m = bindE (py_index j (ncols m)) (\<lambda>k. Inr (llenar_columna k v m))"

subsection \<open>The engine (class DifusionCalor2D)\<close>

text \<open>
  The attributes of an engine. \<open>self_dt\<close> and \<open>self_r\<close> are the doubles
  \<open>__init__\<close> computed; no method changes them.
\<close>

record DifusionCalor2D =
  self_cfg :: ConfiguracionSimulacion
  self_dt :: real
  self_r :: real
  self_u :: matriz
  self_iteracion :: int

text \<open>\<open>_aplicar_contornos\<close>: top row, bottom row, left column, right column, in this order.\<close>

definition aplicar_contornos :: "ConfiguracionSimulacion \<Rightarrow> matriz \<Rightarrow> error + matriz" where
  "aplicar_contornos c m =
     bindE (set_fila 0 (t_arriba c) m) (\<lambda>m1.
     bindE (set_fila (- 1) (t_abajo c) m1) (\<lambda>m2.
     bindE (set_columna 0 (t_izquierda c) m2) (\<lambda>m3.
     set_columna (- 1) (t_derecha c) m3)))"

text \<open>
  What the four assignments of \<open>_aplicar_contornos\<close> leave when none of them raises
  (lemma \<open>aplicar_contornos_ok\<close> below): used to state and prove facts about it.
\<close>

definition bordes :: "ConfiguracionSimulacion \<Rightarrow> matriz \<Rightarrow> matriz" where
  "bordes c m =
     llenar_columna (ncols m - 1) (t_derecha c)
       (llenar_columna 0 (t_izquierda c)
         (llenar_fila (length m - 1) (t_abajo c)
           (llenar_fila 0 (t_arriba c) m)))"


text \<open>
  The right-hand side of the stencil assignment in \<open>actualizar_paso\<close>, with the source's
  slices and its order of operations.
\<close>

definition estencil :: "real \<Rightarrow> matriz \<Rightarrow> matriz" where
  "estencil rr w =
     mat_add (py_slice2 (Some 1) (Some (- 1)) (Some 1) (Some (- 1)) w)
       (esc_mul rr
         (mat_sub
           (mat_add
             (mat_add
               (mat_add (py_slice2 (Some 2) None (Some 1) (Some (- 1)) w)
                        (py_slice2 None (Some (- 2)) (Some 1) (Some (- 1)) w))
               (py_slice2 (Some 1) (Some (- 1)) (Some 2) None w))
             (py_slice2 (Some 1) (Some (- 1)) None (Some (- 2)) w))
           (esc_mul 4 (py_slice2 (Some 1) (Some (- 1)) (Some 1) (Some (- 1)) w))))"

text \<open>\<open>actualizar_paso\<close>: one time step.\<close>

definition actualizar_paso :: "DifusionCalor2D \<Rightarrow> error + DifusionCalor2D" where
  "actualizar_paso s =
     (let u_new = set_slice2 (Some 1) (Some (- 1)) (Some 1) (Some (- 1)) (self_u s)
                    (estencil (self_r s) (self_u s))
      in bindE (aplicar_contornos (self_cfg s) u_new) (\<lambda>u_new'.
           Inr (s\<lparr> self_u := u_new', self_iteracion := self_iteracion s + 1 \<rparr>)))"

text \<open>Any number of steps in a row: \<open>actualizar_paso\<close> called \<open>k\<close> times.\<close>

fun repetir_paso :: "nat \<Rightarrow> DifusionCalor2D \<Rightarrow> error + DifusionCalor2D" where
  "repetir_paso 0 s = Inr s"
| "repetir_paso (Suc k) s = bindE (actualizar_paso s) (repetir_paso k)"

subsection \<open>Rendering and the run loop\<close>

text \<open>
  What the run loop calls and this theory does not define: \<open>time.sleep\<close>, which
  returns or raises (ValueError for a negative argument, OverflowError for one too
  large), and \<open>_bloque_por_temperatura(temp, t_min, t_max)\<close>, which returns the text
  drawn for a cell or raises (its level is computed in double precision, and its ASCII
  branch converts the level with \<open>int\<close>, which raises ValueError on NaN).
\<close>

record entorno =
  time_sleep :: "real \<Rightarrow> error + unit"
  bloque_por_temperatura :: "real \<Rightarrow> real \<Rightarrow> real \<Rightarrow> error + string"

text \<open>
  What \<open>renderizar_terminal\<close> shows is recorded as a frame: the iteration counter, the
  array drawn and the rows of blocks; the header lines it prints are not modelled.
  \<open>np.min\<close> and \<open>np.max\<close> of an array with no element raise ValueError.
\<close>

record fotograma =
  f_iteracion :: int
  f_u :: matriz
  f_filas :: "string list"

definition np_min :: "matriz \<Rightarrow> error + real" where
  "np_min m = (case concat m of [] \<Rightarrow> Inl ValueError | x # xs \<Rightarrow> Inr (fold min xs x))"

definition np_max :: "matriz \<Rightarrow> error + real" where
  "np_max m = (case concat m of [] \<Rightarrow> Inl ValueError | x # xs \<Rightarrow> Inr (fold max xs x))"

text \<open>A call for every element of a list, in order; the first raise ends it.\<close>

fun mapE :: "('a \<Rightarrow> error + 'b) \<Rightarrow> 'a list \<Rightarrow> error + 'b list" where
  "mapE f [] = Inr []"
| "mapE f (x # xs) = bindE (f x) (\<lambda>y. bindE (mapE f xs) (\<lambda>ys. Inr (y # ys)))"

text \<open>
  \<open>renderizar_terminal\<close>: the minimum and the maximum of the array, then, row by row
  and cell by cell, the block of each cell; a row drawn is the blocks joined.
\<close>

definition renderizar_terminal :: "entorno \<Rightarrow> DifusionCalor2D \<Rightarrow> error + fotograma" where
  "renderizar_terminal env s =
     bindE (np_min (self_u s)) (\<lambda>t_min.
     bindE (np_max (self_u s)) (\<lambda>t_max.
     bindE (mapE (\<lambda>fila. mapE (\<lambda>temp. bloque_por_temperatura env temp t_min t_max) fila)
              (self_u s)) (\<lambda>filas_render.
       Inr \<lparr> f_iteracion = self_iteracion s, f_u = self_u s,
             f_filas = map concat filas_render \<rparr>)))"

text \<open>\<open>a % b\<close> on Python ints: ZeroDivisionError for \<open>b = 0\<close>, else the floored remainder.\<close>

definition py_mod :: "int \<Rightarrow> int \<Rightarrow> error + int" where
  "py_mod a b = (if b = 0 then Inl ZeroDivisionError else Inr (a mod b))"

text \<open>
  The body of the loop of \<open>ejecutar\<close>, run \<open>k\<close> times; \<open>out\<close> is the list of frames
  rendered so far.
\<close>

fun bucle :: "entorno \<Rightarrow> nat \<Rightarrow> DifusionCalor2D \<Rightarrow> fotograma list
    \<Rightarrow> error + (DifusionCalor2D \<times> fotograma list)" where
  "bucle env 0 s out = Inr (s, out)"
| "bucle env (Suc k) s out =
     bindE (actualizar_paso s) (\<lambda>s1.
     bindE (py_mod (self_iteracion s1) (cada_render (self_cfg s1))) (\<lambda>resto.
       if resto = 0 \<or> self_iteracion s1 = 1
       then bindE (renderizar_terminal env s1) (\<lambda>f.
            bindE (time_sleep env (pausa (self_cfg s1))) (\<lambda>_.
              bucle env k s1 (out @ [f])))
       else bucle env k s1 out))"

text \<open>\<open>ejecutar\<close>: \<open>range(pasos)\<close> is empty for \<open>pasos \<le> 0\<close>; one more frame after the loop.\<close>

definition ejecutar ::
  "entorno \<Rightarrow> DifusionCalor2D \<Rightarrow> error + (DifusionCalor2D \<times> fotograma list)" where
  "ejecutar env s =
     bindE (bucle env (nat (pasos (self_cfg s))) s []) (\<lambda>(s', out).
     bindE (renderizar_terminal env s') (\<lambda>f. Inr (s', out @ [f])))"

subsection \<open>The command line (parsear_argumentos)\<close>

text \<open>
  The command line is the list of its options, each a flag with the text of its value.
  The text of a value is given by what it denotes: \<open>Entero i\<close> is a text that
  \<open>int\<close> and \<open>float\<close> convert to \<open>i\<close>; \<open>Decimal x\<close> a text that \<open>float\<close>
  converts to the finite number \<open>x\<close> and \<open>int\<close> rejects, in a spelling argparse takes
  for an argument (a negative one as \<open>-0.5\<close>, not with an exponent); \<open>Texto t\<close> a
  text that neither converts. A text that \<open>float\<close> converts to an infinity or to NaN
  has no token here. The spelling \<open>--flag=value\<close> is not modelled.
\<close>

datatype valor = Entero int | Decimal real | Texto string

definition tipo_int :: "valor \<Rightarrow> error + int" where
  "tipo_int v = (case v of Entero i \<Rightarrow> Inr i | Decimal _ \<Rightarrow> Inl SystemExit | Texto _ \<Rightarrow> Inl SystemExit)"

definition tipo_float :: "valor \<Rightarrow> error + real" where
  "tipo_float v =
     (case v of Entero i \<Rightarrow> Inr (of_int i) | Decimal x \<Rightarrow> Inr x | Texto _ \<Rightarrow> Inl SystemExit)"

record Namespace =
  args_n :: int
  args_alpha :: real
  args_dx :: real
  args_pasos :: int
  args_cada_render :: int
  args_pausa :: real
  args_factor_seguridad_cfl :: real

text \<open>The defaults of the seven \<open>add_argument\<close> calls.\<close>

definition args_default :: Namespace where
  "args_default =
     \<lparr> args_n = 20, args_alpha = 1, args_dx = 1, args_pasos = 500, args_cada_render = 5,
       args_pausa = 3 / 100, args_factor_seguridad_cfl = 95 / 100 \<rparr>"

text \<open>
  The long options of the parser: the seven declared ones and \<open>--help\<close>, which
  argparse adds. A flag stands for the option it names in full or, when it starts with
  \<open>--\<close>, for the only option it is a prefix of; a flag that is a prefix of several
  options or of none ends the process, as does \<open>--help\<close> and every other flag.
\<close>

definition opciones :: "string list" where
  "opciones = [''--help'', ''--n'', ''--alpha'', ''--dx'', ''--pasos'', ''--cada-render'',
     ''--pausa'', ''--factor-cfl'']"

definition resolver :: "string \<Rightarrow> string option" where
  "resolver flag =
     (if flag \<in> set opciones then Some flag
      else if take 2 flag = ''--'' then
        (case filter (\<lambda>opcion. take (length flag) opcion = flag) opciones of
           [opcion] \<Rightarrow> Some opcion
         | _ \<Rightarrow> None)
      else None)"

fun parse_args :: "(string \<times> valor) list \<Rightarrow> Namespace \<Rightarrow> error + Namespace" where
  "parse_args [] a = Inr a"
| "parse_args ((flag, v) # resto) a =
     (case resolver flag of
        None \<Rightarrow> Inl SystemExit
      | Some opcion \<Rightarrow>
          if opcion = ''--n'' then
            bindE (tipo_int v) (\<lambda>i. parse_args resto (a\<lparr>args_n := i\<rparr>))
          else if opcion = ''--alpha'' then
            bindE (tipo_float v) (\<lambda>x. parse_args resto (a\<lparr>args_alpha := x\<rparr>))
          else if opcion = ''--dx'' then
            bindE (tipo_float v) (\<lambda>x. parse_args resto (a\<lparr>args_dx := x\<rparr>))
          else if opcion = ''--pasos'' then
            bindE (tipo_int v) (\<lambda>i. parse_args resto (a\<lparr>args_pasos := i\<rparr>))
          else if opcion = ''--cada-render'' then
            bindE (tipo_int v) (\<lambda>i. parse_args resto (a\<lparr>args_cada_render := i\<rparr>))
          else if opcion = ''--pausa'' then
            bindE (tipo_float v) (\<lambda>x. parse_args resto (a\<lparr>args_pausa := x\<rparr>))
          else if opcion = ''--factor-cfl'' then
            bindE (tipo_float v) (\<lambda>x. parse_args resto (a\<lparr>args_factor_seguridad_cfl := x\<rparr>))
          else Inl SystemExit)"

text \<open>
  \<open>parsear_argumentos\<close>: the six checks, then the configuration built from the seven
  parsed values; the four boundary temperatures are not passed to the constructor and
  keep the dataclass's defaults.
\<close>

definition parsear_argumentos :: "(string \<times> valor) list \<Rightarrow> error + ConfiguracionSimulacion" where
  "parsear_argumentos argv =
     bindE (parse_args argv args_default) (\<lambda>args.
       if args_n args < 3 then Inl ValueError
       else if args_alpha args \<le> 0 then Inl ValueError
       else if args_dx args \<le> 0 then Inl ValueError
       else if args_pasos args \<le> 0 then Inl ValueError
       else if args_cada_render args \<le> 0 then Inl ValueError
       else if \<not> (0 < args_factor_seguridad_cfl args \<and> args_factor_seguridad_cfl args \<le> 1)
         then Inl ValueError
       else Inr \<lparr> cfg_n = args_n args, alpha = args_alpha args, dx = args_dx args,
                  pasos = args_pasos args, cada_render = args_cada_render args,
                  pausa = args_pausa args,
                  factor_seguridad_cfl = args_factor_seguridad_cfl args,
                  t_arriba = 100, t_abajo = 0, t_izquierda = 30, t_derecha = 30 \<rparr>)"

subsection \<open>Notions used to state the properties\<close>


subsection \<open>Basic facts\<close>

lemma bindE_Inr [simp]: "bindE (Inr x) f = f x"
  by (simp add: bindE_def)

lemma bindE_Inl [simp]: "bindE (Inl e) f = Inl e"
  by (simp add: bindE_def)

lemma py_index_0: "py_index 0 len = (if 0 < len then Inr 0 else Inl IndexError)"
  by (simp add: py_index_def)

lemma py_index_m1: "py_index (- 1) len = (if 0 < len then Inr (len - 1) else Inl IndexError)"
  by (auto simp: py_index_def Let_def nat_diff_distrib')

lemma length_llenar_fila [simp]: "length (llenar_fila k v m) = length m"
  by (simp add: llenar_fila_def)

lemma length_llenar_columna [simp]: "length (llenar_columna k v m) = length m"
  by (simp add: llenar_columna_def)

lemma nth_llenar_fila:
  "i < length m \<Longrightarrow> llenar_fila k v m ! i = (if i = k then map (\<lambda>_. v) (m ! i) else m ! i)"
  by (simp add: llenar_fila_def nth_list_update)

lemma nth_llenar_columna: "i < length m \<Longrightarrow> llenar_columna k v m ! i = (m ! i)[k := v]"
  by (simp add: llenar_columna_def)

lemma nth_upd_any: "j < length xs \<Longrightarrow> xs[k := v] ! j = (if j = k then v else xs ! j)"
  by (cases "k < length xs") (auto simp: nth_list_update)

lemma llenar_fila_Nil [simp]: "llenar_fila k v m = [] \<longleftrightarrow> m = []"
  by (simp add: llenar_fila_def)

lemma llenar_columna_Nil [simp]: "llenar_columna k v m = [] \<longleftrightarrow> m = []"
  by (simp add: llenar_columna_def)

lemma ncols_llenar_fila [simp]: "ncols (llenar_fila k v m) = ncols m"
  by (cases m; cases k) (simp_all add: ncols_def llenar_fila_def)

lemma ncols_llenar_columna [simp]: "ncols (llenar_columna k v m) = ncols m"
  by (cases m) (simp_all add: ncols_def llenar_columna_def)

lemma aplicar_contornos_ok:
  "m \<noteq> [] \<Longrightarrow> ncols m \<noteq> 0 \<Longrightarrow> aplicar_contornos c m = Inr (bordes c m)"
  by (simp add: aplicar_contornos_def set_fila_def set_columna_def py_index_0 py_index_m1
      bordes_def)

lemma aplicar_contornos_err:
  "m = [] \<or> ncols m = 0 \<Longrightarrow> aplicar_contornos c m = Inl IndexError"
  by (auto simp add: aplicar_contornos_def set_fila_def set_columna_def py_index_0 py_index_m1)

lemma length_bordes [simp]: "length (bordes c m) = length m"
  by (simp add: bordes_def)

lemma length_bordes_fila: "i < length m \<Longrightarrow> length (bordes c m ! i) = length (m ! i)"
  by (simp add: bordes_def nth_llenar_fila nth_llenar_columna)

lemma bordes_Nil [simp]: "bordes c m = [] \<longleftrightarrow> m = []"
  by (simp add: bordes_def)

lemma ncols_bordes [simp]: "ncols (bordes c m) = ncols m"
  by (simp add: bordes_def)

lemma bordes_fila:
  "i < length m \<Longrightarrow>
   bordes c m ! i =
     (if i = length m - 1 then map (\<lambda>_. t_abajo c) (m ! i)
      else if i = 0 then map (\<lambda>_. t_arriba c) (m ! i)
      else m ! i)[0 := t_izquierda c, ncols m - 1 := t_derecha c]"
  by (simp add: bordes_def nth_llenar_fila nth_llenar_columna comp_def)

lemma bordes_nth:
  assumes "i < length m" and "j < length (m ! i)"
  shows "bordes c m ! i ! j =
     (if j = ncols m - 1 then t_derecha c
      else if j = 0 then t_izquierda c
      else if i = length m - 1 then t_abajo c
      else if i = 0 then t_arriba c
      else m ! i ! j)"
proof -
  let ?fila = "if i = length m - 1 then map (\<lambda>_. t_abajo c) (m ! i)
      else if i = 0 then map (\<lambda>_. t_arriba c) (m ! i) else m ! i"
  have len: "j < length ?fila" using assms by auto
  have "bordes c m ! i ! j = (?fila[0 := t_izquierda c, ncols m - 1 := t_derecha c]) ! j"
    using assms by (simp only: bordes_fila)
  also have "\<dots> = (if j = ncols m - 1 then t_derecha c
      else if j = 0 then t_izquierda c else ?fila ! j)"
    using len by (simp add: nth_upd_any del: One_nat_def)
  also have "\<dots> = (if j = ncols m - 1 then t_derecha c
      else if j = 0 then t_izquierda c
      else if i = length m - 1 then t_abajo c
      else if i = 0 then t_arriba c
      else m ! i ! j)"
    using assms by auto
  finally show ?thesis .
qed

lemma bordes_idem: "bordes c (bordes c m) = bordes c m"
proof (rule nth_equalityI)
  show "length (bordes c (bordes c m)) = length (bordes c m)" by simp
next
  fix i assume "i < length (bordes c (bordes c m))"
  then have i: "i < length m" by simp
  then have i': "i < length (bordes c m)" by simp
  have li: "length (bordes c m ! i) = length (m ! i)"
    using i by (rule length_bordes_fila)
  show "bordes c (bordes c m) ! i = bordes c m ! i"
  proof (rule nth_equalityI)
    show "length (bordes c (bordes c m) ! i) = length (bordes c m ! i)"
      using i' by (rule length_bordes_fila)
  next
    fix j assume "j < length (bordes c (bordes c m) ! i)"
    then have j: "j < length (m ! i)"
      using length_bordes_fila [OF i', of c] li by simp
    then have j': "j < length (bordes c m ! i)" using li by simp
    show "bordes c (bordes c m) ! i ! j = bordes c m ! i ! j"
      unfolding bordes_nth [OF i' j'] bordes_nth [OF i j] by simp
  qed
qed

lemma forma_length: "forma a b m \<Longrightarrow> length m = a"
  by (simp add: forma_def)

lemma forma_nth: "forma a b m \<Longrightarrow> i < a \<Longrightarrow> length (m ! i) = b"
  by (simp add: forma_def list_all_length)

lemma forma_ncols: "forma a b m \<Longrightarrow> 0 < a \<Longrightarrow> ncols m = b"
  by (cases m) (auto simp: forma_def ncols_def)

lemma formaI: "length m = a \<Longrightarrow> (\<And>i. i < a \<Longrightarrow> length (m ! i) = b) \<Longrightarrow> forma a b m"
  by (simp add: forma_def list_all_length)

lemma forma_bordes: "forma a b m \<Longrightarrow> forma a b (bordes c m)"
  by (rule formaI) (simp_all add: forma_length forma_nth length_bordes_fila)

subsection \<open>Slices, the stencil and one step\<close>

lemma py_slice_mid: "py_slice (Some 1) (Some (- 1)) xs = take (length xs - 2) (drop 1 xs)"
  by (cases "length xs = 0")
     (auto simp: py_slice_def slice_start_def slice_stop_def slice_bound_def Let_def
        nat_diff_distrib' min_def max_def numeral_2_eq_2)

lemma py_slice_from2: "py_slice (Some 2) None xs = take (length xs - 2) (drop 2 xs)"
  by (auto simp: py_slice_def slice_start_def slice_stop_def slice_bound_def Let_def min_def)

lemma py_slice_to_m2: "py_slice None (Some (- 2)) xs = take (length xs - 2) (drop 0 xs)"
  by (auto simp: py_slice_def slice_start_def slice_stop_def slice_bound_def Let_def
        nat_diff_distrib' max_def)

lemma corte_length: "o' \<le> 2 \<Longrightarrow> length (take (length xs - 2) (drop o' xs)) = length xs - 2"
  by simp

lemma corte_nth: "i < length xs - 2 \<Longrightarrow> o' \<le> 2 \<Longrightarrow> take (length xs - 2) (drop o' xs) ! i = xs ! (o' + i)"
  by simp

lemma set_slice_mid:
  "2 \<le> length xs \<Longrightarrow>
   set_slice (Some 1) (Some (- 1)) xs ys = take 1 xs @ ys @ drop (length xs - 1) xs"
  by (auto simp: set_slice_def slice_start_def slice_stop_def slice_bound_def Let_def
        nat_diff_distrib' min_def max_def)

lemma set_slice_mid_length:
  "2 \<le> length xs \<Longrightarrow> length ys = length xs - 2 \<Longrightarrow>
   length (set_slice (Some 1) (Some (- 1)) xs ys) = length xs"
  by (simp add: set_slice_mid)

lemma set_slice_mid_nth:
  assumes "2 \<le> length xs" and "length ys = length xs - 2" and "i < length xs"
  shows "set_slice (Some 1) (Some (- 1)) xs ys ! i =
     (if 1 \<le> i \<and> i \<le> length xs - 2 then ys ! (i - 1) else xs ! i)"
proof -
  consider "i = 0" | "1 \<le> i" "i \<le> length xs - 2" | "i = length xs - 1" "1 \<le> i"
    using assms by linarith
  then show ?thesis
  proof cases
    case 1
    then show ?thesis using assms by (simp add: set_slice_mid nth_append)
  next
    case 2
    then have "i - 1 < length ys" using assms by linarith
    with 2 show ?thesis using assms by (simp add: set_slice_mid nth_append)
  next
    case 3
    have len: "length (take 1 xs @ ys) = i" using assms 3 by simp
    have "set_slice (Some 1) (Some (- 1)) xs ys ! i
        = ((take 1 xs @ ys) @ drop (length xs - 1) xs) ! (length (take 1 xs @ ys) + 0)"
      using assms by (simp only: set_slice_mid len append_assoc add_0_right)
    also have "\<dots> = drop (length xs - 1) xs ! 0"
      by (simp only: nth_append_length_plus)
    also have "\<dots> = xs ! i" using assms 3 by simp
    finally show ?thesis using 3 assms by auto
  qed
qed

lemma corte2_forma:
  assumes "forma a b m" and "o1 \<le> 2" and "o2 \<le> 2"
  shows "forma (a - 2) (b - 2)
           (map (\<lambda>fila. take (length fila - 2) (drop o2 fila)) (take (length m - 2) (drop o1 m)))"
proof (rule formaI)
  show "length (map (\<lambda>fila. take (length fila - 2) (drop o2 fila))
          (take (length m - 2) (drop o1 m))) = a - 2"
    using assms by (simp add: forma_length)
next
  fix i assume i: "i < a - 2"
  then have "o1 + i < a" using assms by simp
  then have "length (m ! (o1 + i)) = b" using assms(1) by (simp add: forma_nth)
  then show "length (map (\<lambda>fila. take (length fila - 2) (drop o2 fila))
          (take (length m - 2) (drop o1 m)) ! i) = b - 2"
    using i assms by (simp add: forma_length)
qed

lemma corte2_nth:
  assumes "forma a b m" and "o1 \<le> 2" and "o2 \<le> 2" and "i < a - 2" and "j < b - 2"
  shows "map (\<lambda>fila. take (length fila - 2) (drop o2 fila)) (take (length m - 2) (drop o1 m)) ! i ! j
          = m ! (o1 + i) ! (o2 + j)"
proof -
  have "o1 + i < a" using assms by simp
  then have "length (m ! (o1 + i)) = b" using assms(1) by (simp add: forma_nth)
  then show ?thesis using assms by (simp add: forma_length)
qed

lemma py_slice2_c: "py_slice2 (Some 1) (Some (- 1)) (Some 1) (Some (- 1)) m =
    map (\<lambda>fila. take (length fila - 2) (drop 1 fila)) (take (length m - 2) (drop 1 m))"
  by (simp add: py_slice2_def py_slice_mid)

lemma py_slice2_abajo: "py_slice2 (Some 2) None (Some 1) (Some (- 1)) m =
    map (\<lambda>fila. take (length fila - 2) (drop 1 fila)) (take (length m - 2) (drop 2 m))"
  by (simp add: py_slice2_def py_slice_mid py_slice_from2)

lemma py_slice2_arriba: "py_slice2 None (Some (- 2)) (Some 1) (Some (- 1)) m =
    map (\<lambda>fila. take (length fila - 2) (drop 1 fila)) (take (length m - 2) (drop 0 m))"
  by (simp add: py_slice2_def py_slice_mid py_slice_to_m2)

lemma py_slice2_der: "py_slice2 (Some 1) (Some (- 1)) (Some 2) None m =
    map (\<lambda>fila. take (length fila - 2) (drop 2 fila)) (take (length m - 2) (drop 1 m))"
  by (simp add: py_slice2_def py_slice_mid py_slice_from2)

lemma py_slice2_izq: "py_slice2 (Some 1) (Some (- 1)) None (Some (- 2)) m =
    map (\<lambda>fila. take (length fila - 2) (drop 0 fila)) (take (length m - 2) (drop 1 m))"
  by (simp add: py_slice2_def py_slice_mid py_slice_to_m2)

lemmas py_slice2_cortes = py_slice2_c py_slice2_abajo py_slice2_arriba py_slice2_der py_slice2_izq

lemma mat_add_forma: "forma a b x \<Longrightarrow> forma a b y \<Longrightarrow> forma a b (mat_add x y)"
  by (rule formaI) (simp_all add: mat_add_def forma_length forma_nth)

lemma mat_sub_forma: "forma a b x \<Longrightarrow> forma a b y \<Longrightarrow> forma a b (mat_sub x y)"
  by (rule formaI) (simp_all add: mat_sub_def forma_length forma_nth)

lemma esc_mul_forma: "forma a b x \<Longrightarrow> forma a b (esc_mul k x)"
  by (rule formaI) (simp_all add: esc_mul_def forma_length forma_nth)

lemma mat_add_nth:
  "forma a b x \<Longrightarrow> forma a b y \<Longrightarrow> i < a \<Longrightarrow> j < b \<Longrightarrow>
   mat_add x y ! i ! j = x ! i ! j + y ! i ! j"
  by (simp add: mat_add_def forma_length forma_nth)

lemma mat_sub_nth:
  "forma a b x \<Longrightarrow> forma a b y \<Longrightarrow> i < a \<Longrightarrow> j < b \<Longrightarrow>
   mat_sub x y ! i ! j = x ! i ! j - y ! i ! j"
  by (simp add: mat_sub_def forma_length forma_nth)

lemma esc_mul_nth:
  "forma a b x \<Longrightarrow> i < a \<Longrightarrow> j < b \<Longrightarrow> esc_mul k x ! i ! j = k * x ! i ! j"
  by (simp add: esc_mul_def forma_length forma_nth)

lemma estencil_forma:
  assumes "forma a b w"
  shows "forma (a - 2) (b - 2) (estencil rr w)"
  unfolding estencil_def py_slice2_cortes
  by (intro mat_add_forma mat_sub_forma esc_mul_forma corte2_forma [OF assms]) simp_all

lemma combinacion_nth:
  assumes "forma p q C" "forma p q D" "forma p q U" "forma p q R" "forma p q L"
    and "i < p" and "j < q"
  shows "mat_add C (esc_mul rr (mat_sub (mat_add (mat_add (mat_add D U) R) L) (esc_mul 4 C))) ! i ! j
    = C ! i ! j + rr * (D ! i ! j + U ! i ! j + R ! i ! j + L ! i ! j - 4 * C ! i ! j)"
proof -
  have f1: "forma p q (mat_add D U)" using assms by (intro mat_add_forma)
  have f2: "forma p q (mat_add (mat_add D U) R)" using assms f1 by (intro mat_add_forma)
  have f3: "forma p q (mat_add (mat_add (mat_add D U) R) L)" using assms f2 by (intro mat_add_forma)
  have f4: "forma p q (esc_mul 4 C)" using assms by (intro esc_mul_forma)
  have f5: "forma p q (mat_sub (mat_add (mat_add (mat_add D U) R) L) (esc_mul 4 C))"
    using f3 f4 by (intro mat_sub_forma)
  have f6: "forma p q (esc_mul rr (mat_sub (mat_add (mat_add (mat_add D U) R) L) (esc_mul 4 C)))"
    using f5 by (intro esc_mul_forma)
  show ?thesis
    using assms(6,7)
    by (simp only: mat_add_nth [OF assms(1) f6] esc_mul_nth [OF f5] mat_sub_nth [OF f3 f4]
        mat_add_nth [OF f2 assms(5)] mat_add_nth [OF f1 assms(4)] mat_add_nth [OF assms(2,3)]
        esc_mul_nth [OF assms(1)])
qed

lemma estencil_nth:
  assumes "forma a b w" and "i < a - 2" and "j < b - 2"
  shows "estencil rr w ! i ! j =
     w ! (1 + i) ! (1 + j) + rr * (w ! (2 + i) ! (1 + j) + w ! (0 + i) ! (1 + j)
        + w ! (1 + i) ! (2 + j) + w ! (1 + i) ! (0 + j) - 4 * w ! (1 + i) ! (1 + j))"
proof -
  have le: "(0::nat) \<le> 2" "(1::nat) \<le> 2" "(2::nat) \<le> 2" by simp_all
  note f = corte2_forma [OF assms(1)]
  note n = corte2_nth [OF assms(1) _ _ assms(2,3)]
  show ?thesis
    unfolding estencil_def py_slice2_cortes
    by (simp only: combinacion_nth [OF f [OF le(2) le(2)] f [OF le(3) le(2)] f [OF le(1) le(2)]
          f [OF le(2) le(3)] f [OF le(2) le(1)] assms(2,3)]
        n [OF le(2) le(2)] n [OF le(3) le(2)] n [OF le(1) le(2)] n [OF le(2) le(3)]
        n [OF le(2) le(1)])
qed

lemma py_slice_mid_length: "length (py_slice (Some 1) (Some (- 1)) xs) = length xs - 2"
  by (simp add: py_slice_mid)

lemma py_slice_mid_nth:
  "i < length xs - 2 \<Longrightarrow> py_slice (Some 1) (Some (- 1)) xs ! i = xs ! (1 + i)"
  by (simp add: py_slice_mid)

lemma set_slice2_fila:
  assumes "forma a b m" and "forma (a - 2) (b - 2) x" and "2 \<le> a" and "i < a"
  shows "set_slice2 (Some 1) (Some (- 1)) (Some 1) (Some (- 1)) m x ! i =
     (if 1 \<le> i \<and> i \<le> a - 2 then set_slice (Some 1) (Some (- 1)) (m ! i) (x ! (i - 1))
      else m ! i)"
proof -
  let ?ys = "map2 (set_slice (Some 1) (Some (- 1))) (py_slice (Some 1) (Some (- 1)) m) x"
  have lm: "length m = a" and lx: "length x = a - 2"
    using assms by (simp_all add: forma_length)
  have ly: "length ?ys = length m - 2" by (simp add: py_slice_mid_length lm lx)
  have "set_slice2 (Some 1) (Some (- 1)) (Some 1) (Some (- 1)) m x ! i =
      (if 1 \<le> i \<and> i \<le> length m - 2 then ?ys ! (i - 1) else m ! i)"
    unfolding set_slice2_def using assms(3,4) lm ly by (intro set_slice_mid_nth) simp_all
  moreover have "?ys ! (i - 1) = set_slice (Some 1) (Some (- 1)) (m ! i) (x ! (i - 1))"
    if "1 \<le> i" "i \<le> a - 2"
  proof -
    have "i - 1 < length m - 2" using that lm assms(3) by linarith
    then show ?thesis using that lm lx by (simp add: py_slice_mid_length py_slice_mid_nth)
  qed
  ultimately show ?thesis using lm by simp
qed

lemma set_slice2_length:
  assumes "forma a b m" and "forma (a - 2) (b - 2) x" and "2 \<le> a"
  shows "length (set_slice2 (Some 1) (Some (- 1)) (Some 1) (Some (- 1)) m x) = a"
proof -
  have lm: "length m = a" and lx: "length x = a - 2"
    using assms by (simp_all add: forma_length)
  show ?thesis unfolding set_slice2_def
    using assms(3) lm lx by (subst set_slice_mid_length) (simp_all add: py_slice_mid_length)
qed

lemma set_slice2_forma:
  assumes "forma a b m" and "forma (a - 2) (b - 2) x" and "2 \<le> a" and "2 \<le> b"
  shows "forma a b (set_slice2 (Some 1) (Some (- 1)) (Some 1) (Some (- 1)) m x)"
proof (rule formaI)
  show "length (set_slice2 (Some 1) (Some (- 1)) (Some 1) (Some (- 1)) m x) = a"
    using assms by (simp add: set_slice2_length)
next
  fix i assume i: "i < a"
  have li: "length (m ! i) = b" using assms(1) i by (simp add: forma_nth)
  show "length (set_slice2 (Some 1) (Some (- 1)) (Some 1) (Some (- 1)) m x ! i) = b"
  proof (cases "1 \<le> i \<and> i \<le> a - 2")
    case True
    then have "i - 1 < a - 2" using assms(3) by linarith
    then have "length (x ! (i - 1)) = b - 2" using assms(2) by (simp add: forma_nth)
    then show ?thesis
      using True li assms(4) by (simp add: set_slice2_fila [OF assms(1,2,3) i] set_slice_mid_length)
  next
    case False
    then show ?thesis using li by (auto simp: set_slice2_fila [OF assms(1,2,3) i])
  qed
qed

lemma set_slice2_nth:
  assumes "forma a b m" and "forma (a - 2) (b - 2) x" and "2 \<le> a" and "2 \<le> b"
    and "i < a" and "j < b"
  shows "set_slice2 (Some 1) (Some (- 1)) (Some 1) (Some (- 1)) m x ! i ! j =
     (if 1 \<le> i \<and> i \<le> a - 2 \<and> 1 \<le> j \<and> j \<le> b - 2 then x ! (i - 1) ! (j - 1) else m ! i ! j)"
proof (cases "1 \<le> i \<and> i \<le> a - 2")
  case True
  have li: "length (m ! i) = b" using assms(1,5) by (simp add: forma_nth)
  have "i - 1 < a - 2" using True assms(3) by linarith
  then have lx: "length (x ! (i - 1)) = b - 2" using assms(2) by (simp add: forma_nth)
  have c: "set_slice (Some 1) (Some (- 1)) (m ! i) (x ! (i - 1)) ! j =
      (if 1 \<le> j \<and> j \<le> length (m ! i) - 2 then x ! (i - 1) ! (j - 1) else m ! i ! j)"
    using li lx assms(4,6) by (intro set_slice_mid_nth) simp_all
  have r: "set_slice2 (Some 1) (Some (- 1)) (Some 1) (Some (- 1)) m x ! i =
      set_slice (Some 1) (Some (- 1)) (m ! i) (x ! (i - 1))"
    using True by (auto simp: set_slice2_fila [OF assms(1,2,3,5)])
  show ?thesis unfolding r c li using True by auto
next
  case False
  then show ?thesis by (auto simp: set_slice2_fila [OF assms(1,2,3,5)])
qed

lemma actualizar_paso_ok:
  assumes "forma a b (self_u s)" and "2 \<le> a" and "2 \<le> b"
  shows "actualizar_paso s =
     Inr (s\<lparr> self_u := bordes (self_cfg s)
                 (set_slice2 (Some 1) (Some (- 1)) (Some 1) (Some (- 1)) (self_u s)
                    (estencil (self_r s) (self_u s))),
              self_iteracion := self_iteracion s + 1 \<rparr>)"
proof -
  let ?n = "set_slice2 (Some 1) (Some (- 1)) (Some 1) (Some (- 1)) (self_u s)
                    (estencil (self_r s) (self_u s))"
  have f: "forma a b ?n"
    using assms by (intro set_slice2_forma estencil_forma)
  then have "?n \<noteq> []" "ncols ?n \<noteq> 0"
    using assms(2,3) forma_ncols [OF f] forma_length [OF f] by auto
  then show ?thesis
    by (simp add: actualizar_paso_def Let_def aplicar_contornos_ok)
qed

lemma actualizar_paso_forma:
  assumes "forma a b (self_u s)" and "2 \<le> a" and "2 \<le> b" and "actualizar_paso s = Inr s'"
  shows "forma a b (self_u s')"
proof -
  have "forma a b (bordes (self_cfg s)
                 (set_slice2 (Some 1) (Some (- 1)) (Some 1) (Some (- 1)) (self_u s)
                    (estencil (self_r s) (self_u s))))"
    using assms(1,2,3) by (intro forma_bordes set_slice2_forma estencil_forma)
  then show ?thesis using assms(4) by (auto simp: actualizar_paso_ok [OF assms(1,2,3)])
qed

lemma actualizar_paso_celda:
  assumes "forma a b (self_u s)" and "2 \<le> a" and "2 \<le> b" and "actualizar_paso s = Inr s'"
    and "i < a" and "j < b"
  shows "self_u s' ! i ! j =
     (if j = b - 1 then t_derecha (self_cfg s)
      else if j = 0 then t_izquierda (self_cfg s)
      else if i = a - 1 then t_abajo (self_cfg s)
      else if i = 0 then t_arriba (self_cfg s)
      else self_u s ! i ! j + self_r s *
             (self_u s ! (i + 1) ! j + self_u s ! (i - 1) ! j
              + self_u s ! i ! (j + 1) + self_u s ! i ! (j - 1) - 4 * self_u s ! i ! j))"
proof -
  let ?x = "estencil (self_r s) (self_u s)"
  let ?n = "set_slice2 (Some 1) (Some (- 1)) (Some 1) (Some (- 1)) (self_u s) ?x"
  have fx: "forma (a - 2) (b - 2) ?x" using assms(1) by (rule estencil_forma)
  have f: "forma a b ?n" using assms(1,2,3) fx by (intro set_slice2_forma)
  have u': "self_u s' = bordes (self_cfg s) ?n"
    using assms(4) by (auto simp: actualizar_paso_ok [OF assms(1,2,3)])
  have ln: "length ?n = a" and nc: "ncols ?n = b" and lni: "length (?n ! i) = b"
    using f assms(2,5) by (simp_all add: forma_length forma_ncols forma_nth)
  have i: "i < length ?n" and j: "j < length (?n ! i)" using ln lni assms(5,6) by simp_all
  have b: "self_u s' ! i ! j =
     (if j = b - 1 then t_derecha (self_cfg s)
      else if j = 0 then t_izquierda (self_cfg s)
      else if i = a - 1 then t_abajo (self_cfg s)
      else if i = 0 then t_arriba (self_cfg s)
      else ?n ! i ! j)"
    unfolding u' bordes_nth [OF i j] ln nc ..
  show ?thesis
  proof (cases "1 \<le> i \<and> i \<le> a - 2 \<and> 1 \<le> j \<and> j \<le> b - 2")
    case True
    then have ij: "i - 1 < a - 2" "j - 1 < b - 2" using assms(2,3) by linarith+
    have "?n ! i ! j = ?x ! (i - 1) ! (j - 1)"
      using True by (simp add: set_slice2_nth [OF assms(1) fx assms(2,3,5,6)])
    also have "\<dots> = self_u s ! i ! j + self_r s *
             (self_u s ! (i + 1) ! j + self_u s ! (i - 1) ! j
              + self_u s ! i ! (j + 1) + self_u s ! i ! (j - 1) - 4 * self_u s ! i ! j)"
    proof -
      have e: "1 + (i - 1) = i" "2 + (i - 1) = i + 1" "0 + (i - 1) = i - 1"
        "1 + (j - 1) = j" "2 + (j - 1) = j + 1" "0 + (j - 1) = j - 1"
        using True by linarith+
      show ?thesis unfolding estencil_nth [OF assms(1) ij] e ..
    qed
    finally show ?thesis using b True by simp
  next
    case False
    then have "j = b - 1 \<or> j = 0 \<or> i = a - 1 \<or> i = 0" using assms(5,6) by linarith
    then show ?thesis using b by auto
  qed
qed

text \<open>One step on a 3 x 3 plate, evaluated.\<close>

lemma paso_ejemplo:
  "actualizar_paso
     \<lparr> self_cfg = cfg_default\<lparr>cfg_n := 3\<rparr>, self_dt = 19 / 80, self_r = 19 / 80,
       self_u = [[30, 100, 30], [30, 0, 30], [30, 0, 30]], self_iteracion = 0 \<rparr>
   = Inr \<lparr> self_cfg = cfg_default\<lparr>cfg_n := 3\<rparr>, self_dt = 19 / 80, self_r = 19 / 80,
       self_u = [[30, 100, 30], [30, 38, 30], [30, 0, 30]], self_iteracion = 1 \<rparr>"
  by (simp add: actualizar_paso_def estencil_def set_slice2_def py_slice2_def py_slice_def
      set_slice_def slice_start_def slice_stop_def slice_bound_def mat_add_def mat_sub_def
      esc_mul_def aplicar_contornos_def set_fila_def set_columna_def py_index_def ncols_def
      llenar_fila_def llenar_columna_def cfg_default_def Let_def)

subsection \<open>The edges\<close>

text \<open>
  C7. \<open>_aplicar_contornos\<close> is idempotent: for every array and every configuration,
  applying it and then applying it again gives what applying it once gives (the same
  array, or the same IndexError when the array has no cell).
\<close>

theorem aplicar_contornos_idempotente:
  "bindE (aplicar_contornos c m) (aplicar_contornos c) = aplicar_contornos c m"
proof (cases "m = [] \<or> ncols m = 0")
  case True
  then show ?thesis by (simp add: aplicar_contornos_err)
next
  case False
  then have "bordes c m \<noteq> []" "ncols (bordes c m) \<noteq> 0" by simp_all
  with False show ?thesis by (simp add: aplicar_contornos_ok bordes_idem)
qed

theorem aplicar_contornos_idempotente_witness:
  "aplicar_contornos cfg_default [[1, 2, 3], [4, 5, 6], [7, 8, 9]]
     = Inr [[30, 100, 30], [30, 5, 30], [30, 0, 30]]
   \<and> aplicar_contornos cfg_default [[30, 100, 30], [30, 5, 30], [30, 0, 30]]
     = Inr [[30, 100, 30], [30, 5, 30], [30, 0, 30]]"
proof -
  have e: "aplicar_contornos cfg_default [[1, 2, 3], [4, 5, 6], [7, 8, 9]]
     = Inr [[30, 100, 30], [30, 5, 30], [30, 0, 30]]"
    by (simp add: aplicar_contornos_def set_fila_def set_columna_def py_index_def ncols_def
        llenar_fila_def llenar_columna_def cfg_default_def)
  from aplicar_contornos_idempotente [of cfg_default "[[1, 2, 3], [4, 5, 6], [7, 8, 9]]"]
  show ?thesis by (simp add: e)
qed

lemma bordes_forma_nth:
  assumes "forma a b m" and "i < a" and "j < b"
  shows "bordes c m ! i ! j =
     (if j = b - 1 then t_derecha c
      else if j = 0 then t_izquierda c
      else if i = a - 1 then t_abajo c
      else if i = 0 then t_arriba c
      else m ! i ! j)"
proof -
  have la: "length m = a" and nc: "ncols m = b" and li: "length (m ! i) = b"
    using assms by (simp_all add: forma_length forma_ncols forma_nth)
  have i: "i < length m" and j: "j < length (m ! i)" using la li assms by simp_all
  show ?thesis unfolding bordes_nth [OF i j] la nc ..
qed

lemma filas_ok:
  assumes "m \<noteq> []"
  shows "bindE (set_fila 0 v m) (set_fila (- 1) w)
     = Inr (llenar_fila (length m - 1) w (llenar_fila 0 v m))"
  using assms by (simp add: set_fila_def py_index_0 py_index_m1)

lemma columnas_ok:
  assumes "ncols h \<noteq> 0"
  shows "bindE (set_columna 0 v h) (set_columna (- 1) w)
     = Inr (llenar_columna (ncols h - 1) w (llenar_columna 0 v h))"
  using assms by (simp add: set_columna_def py_index_0 py_index_m1)

lemma filas_nth:
  assumes "forma a b m" and "i < a" and "j < b"
  shows "llenar_fila (a - 1) w (llenar_fila 0 v m) ! i ! j =
     (if i = a - 1 then w else if i = 0 then v else m ! i ! j)"
proof -
  have la: "length m = a" and li: "length (m ! i) = b"
    using assms by (simp_all add: forma_length forma_nth)
  have i: "i < length m" "i < length (llenar_fila 0 v m)" using la assms(2) by simp_all
  have "llenar_fila (a - 1) w (llenar_fila 0 v m) ! i =
      (if i = a - 1 then map (\<lambda>_. w) (llenar_fila 0 v m ! i) else llenar_fila 0 v m ! i)"
    by (rule nth_llenar_fila [OF i(2)])
  moreover have "llenar_fila 0 v m ! i = (if i = 0 then map (\<lambda>_. v) (m ! i) else m ! i)"
    by (rule nth_llenar_fila [OF i(1)])
  ultimately show ?thesis using li assms(3) by auto
qed

text \<open>
  C8. On an array of \<open>a\<close> rows and \<open>b\<close> columns (\<open>a, b \<ge> 2\<close>, so on every N x N
  array with N \<ge> 2) \<open>_aplicar_contornos\<close> does not raise and writes in the order top
  row, bottom row, left column, right column. After the two row assignments (\<open>h\<close>)
  every cell of row 0, the corners too, holds the top temperature and every cell of the
  last row the bottom one; the two column assignments then overwrite column 0 and the
  last column of \<open>h\<close> and leave the other cells of \<open>h\<close> alone. So in the result
  (\<open>g\<close>) the edge cells between the corners of row 0 hold the top temperature, those of
  the last row the bottom one, and each corner holds its column's value: the corners of
  column 0 the left temperature, the corners of the last column the right temperature.
\<close>

theorem aplicar_contornos_esquinas:
  assumes "forma a b m" and "2 \<le> a" and "2 \<le> b"
  shows "\<exists>h g. bindE (set_fila 0 (t_arriba c) m) (set_fila (- 1) (t_abajo c)) = Inr h
     \<and> bindE (set_columna 0 (t_izquierda c) h) (set_columna (- 1) (t_derecha c)) = Inr g
     \<and> aplicar_contornos c m = Inr g \<and> forma a b g
     \<and> (\<forall>i<a. \<forall>j<b. h ! i ! j =
           (if i = a - 1 then t_abajo c else if i = 0 then t_arriba c else m ! i ! j))
     \<and> (\<forall>i<a. \<forall>j<b. g ! i ! j =
           (if j = b - 1 then t_derecha c else if j = 0 then t_izquierda c else h ! i ! j))
     \<and> (\<forall>j. 0 < j \<and> j < b - 1 \<longrightarrow> g ! 0 ! j = t_arriba c \<and> g ! (a - 1) ! j = t_abajo c)
     \<and> g ! 0 ! 0 = t_izquierda c \<and> g ! (a - 1) ! 0 = t_izquierda c
     \<and> g ! 0 ! (b - 1) = t_derecha c \<and> g ! (a - 1) ! (b - 1) = t_derecha c"
proof -
  let ?h = "llenar_fila (a - 1) (t_abajo c) (llenar_fila 0 (t_arriba c) m)"
  let ?g = "bordes c m"
  have la: "length m = a" and nc: "ncols m = b"
    using assms by (simp_all add: forma_length forma_ncols)
  have ne: "m \<noteq> []" "ncols m \<noteq> 0" using la nc assms by auto
  have h: "bindE (set_fila 0 (t_arriba c) m) (set_fila (- 1) (t_abajo c)) = Inr ?h"
    using filas_ok [OF ne(1)] la by simp
  have nh: "ncols ?h = b" using nc by simp
  have gh: "?g = llenar_columna (b - 1) (t_derecha c) (llenar_columna 0 (t_izquierda c) ?h)"
    by (simp add: bordes_def la nc)
  have g: "bindE (set_columna 0 (t_izquierda c) ?h) (set_columna (- 1) (t_derecha c)) = Inr ?g"
    unfolding gh using columnas_ok [of ?h] nh assms(3) by simp
  have ap: "aplicar_contornos c m = Inr ?g" by (rule aplicar_contornos_ok [OF ne])
  have fg: "forma a b ?g" by (rule forma_bordes [OF assms(1)])
  have hc: "?h ! i ! j = (if i = a - 1 then t_abajo c else if i = 0 then t_arriba c else m ! i ! j)"
    if "i < a" "j < b" for i j
    by (rule filas_nth [OF assms(1) that])
  have gc: "?g ! i ! j =
      (if j = b - 1 then t_derecha c else if j = 0 then t_izquierda c else ?h ! i ! j)"
    if "i < a" "j < b" for i j
    unfolding bordes_forma_nth [OF assms(1) that] hc [OF that] by simp
  have z: "0 < a" "a - 1 < a" "0 < b" "b - 1 < b" "a - 1 \<noteq> 0" "b - 1 \<noteq> 0"
    using assms(2,3) by simp_all
  have ed: "?g ! 0 ! j = t_arriba c \<and> ?g ! (a - 1) ! j = t_abajo c" if "0 < j \<and> j < b - 1" for j
  proof -
    have j: "j < b" "j \<noteq> b - 1" "j \<noteq> 0" using that by linarith+
    show ?thesis
      unfolding bordes_forma_nth [OF assms(1) z(1) j(1)] bordes_forma_nth [OF assms(1) z(2) j(1)]
      using j z by simp
  qed
  have c1: "?g ! 0 ! 0 = t_izquierda c"
    unfolding bordes_forma_nth [OF assms(1) z(1) z(3)] using z by simp
  have c2: "?g ! (a - 1) ! 0 = t_izquierda c"
    unfolding bordes_forma_nth [OF assms(1) z(2) z(3)] using z by simp
  have c3: "?g ! 0 ! (b - 1) = t_derecha c"
    unfolding bordes_forma_nth [OF assms(1) z(1) z(4)] by simp
  have c4: "?g ! (a - 1) ! (b - 1) = t_derecha c"
    unfolding bordes_forma_nth [OF assms(1) z(2) z(4)] by simp
  show ?thesis
    using h g ap fg hc gc ed c1 c2 c3 c4 by blast
qed

theorem aplicar_contornos_esquinas_witness:
  "\<exists>g. aplicar_contornos
          (cfg_default\<lparr>t_arriba := 1, t_abajo := 2, t_izquierda := 3, t_derecha := 4\<rparr>)
          [[10, 20, 30], [40, 50, 60], [70, 80, 90]] = Inr g
     \<and> g ! 0 ! 0 = 3 \<and> g ! 0 ! 1 = 1 \<and> g ! 0 ! 2 = 4
     \<and> g ! 1 ! 0 = 3 \<and> g ! 1 ! 1 = 50 \<and> g ! 1 ! 2 = 4
     \<and> g ! 2 ! 0 = 3 \<and> g ! 2 ! 1 = 2 \<and> g ! 2 ! 2 = 4"
proof -
  let ?c = "cfg_default\<lparr>t_arriba := 1, t_abajo := 2, t_izquierda := 3, t_derecha := 4\<rparr>"
  let ?m = "[[10, 20, 30], [40, 50, 60], [70, 80, 90 :: real]]"
  have f: "forma 3 3 ?m" by (simp add: forma_def)
  have p: "(2::nat) \<le> 3" by simp
  from aplicar_contornos_esquinas [OF f p p, of ?c] obtain h g where
    ap: "aplicar_contornos ?c ?m = Inr g"
    and hc: "\<forall>i<3. \<forall>j<3. h ! i ! j =
           (if i = 3 - 1 then t_abajo ?c else if i = 0 then t_arriba ?c else ?m ! i ! j)"
    and gc: "\<forall>i<3. \<forall>j<3. g ! i ! j =
           (if j = 3 - 1 then t_derecha ?c else if j = 0 then t_izquierda ?c else h ! i ! j)"
    by blast
  have n: "(0::nat) < 3" "(1::nat) < 3" "(2::nat) < 3" by simp_all
  have "g ! 0 ! 0 = 3" "g ! 0 ! 1 = 1" "g ! 0 ! 2 = 4"
    "g ! 1 ! 0 = 3" "g ! 1 ! 1 = 50" "g ! 1 ! 2 = 4"
    "g ! 2 ! 0 = 3" "g ! 2 ! 1 = 2" "g ! 2 ! 2 = 4"
    using gc [rule_format, OF n(1) n(1)] gc [rule_format, OF n(1) n(2)] gc [rule_format, OF n(1) n(3)]
      gc [rule_format, OF n(2) n(1)] gc [rule_format, OF n(2) n(2)] gc [rule_format, OF n(2) n(3)]
      gc [rule_format, OF n(3) n(1)] gc [rule_format, OF n(3) n(2)] gc [rule_format, OF n(3) n(3)]
      hc [rule_format, OF n(1) n(2)] hc [rule_format, OF n(2) n(2)] hc [rule_format, OF n(3) n(2)]
    by simp_all
  with ap show ?thesis by blast
qed

subsection \<open>One step\<close>

text \<open>
  C1. On an N x N array with N \<ge> 3 a step does not raise; every interior cell \<open>(i, j)\<close>,
  \<open>1 \<le> i, j \<le> N - 2\<close>, of the new array is
  \<open>old[i,j] + r (old[i+1,j] + old[i-1,j] + old[i,j+1] + old[i,j-1] - 4 old[i,j])\<close>,
  every value on the right read in the array before the step; the iteration counter grows
  by exactly 1.
\<close>

theorem actualizar_paso_interior:
  assumes "forma N N (self_u s)" and "3 \<le> N"
    and "1 \<le> i" and "i \<le> N - 2" and "1 \<le> j" and "j \<le> N - 2"
  shows "\<exists>s'. actualizar_paso s = Inr s'
     \<and> self_u s' ! i ! j =
         self_u s ! i ! j + self_r s *
           (self_u s ! (i + 1) ! j + self_u s ! (i - 1) ! j
            + self_u s ! i ! (j + 1) + self_u s ! i ! (j - 1) - 4 * self_u s ! i ! j)
     \<and> self_iteracion s' = self_iteracion s + 1"
proof -
  have n2: "2 \<le> N" using assms(2) by simp
  obtain s' where s': "actualizar_paso s = Inr s'"
    and it: "self_iteracion s' = self_iteracion s + 1"
    using actualizar_paso_ok [OF assms(1) n2 n2] by simp
  have ij: "i < N" "j < N" using assms by linarith+
  have "self_u s' ! i ! j =
         self_u s ! i ! j + self_r s *
           (self_u s ! (i + 1) ! j + self_u s ! (i - 1) ! j
            + self_u s ! i ! (j + 1) + self_u s ! i ! (j - 1) - 4 * self_u s ! i ! j)"
    unfolding actualizar_paso_celda [OF assms(1) n2 n2 s' ij]
    using assms by auto
  with s' it show ?thesis by blast
qed

theorem actualizar_paso_interior_witness:
  "\<exists>s'. actualizar_paso
     \<lparr> self_cfg = cfg_default\<lparr>cfg_n := 3\<rparr>, self_dt = 19 / 80, self_r = 19 / 80,
       self_u = [[30, 100, 30], [30, 0, 30], [30, 0, 30]], self_iteracion = 0 \<rparr> = Inr s'
     \<and> self_u s' ! 1 ! 1 = 0 + 19 / 80 * (0 + 100 + 30 + 30 - 4 * 0)
     \<and> self_iteracion s' = 1"
proof -
  have f: "forma 3 3 [[30, 100, 30], [30, 0, 30], [30, 0, 30 :: real]]"
    by (simp add: forma_def)
  from actualizar_paso_interior [of 3 "\<lparr> self_cfg = cfg_default\<lparr>cfg_n := 3\<rparr>, self_dt = 19 / 80,
       self_r = 19 / 80, self_u = [[30, 100, 30], [30, 0, 30], [30, 0, 30]],
       self_iteracion = 0 \<rparr>" 1 1]
  show ?thesis using f by (simp add: numeral_2_eq_2)
qed

text \<open>
  C10. A step changes the array and the iteration counter only: the configuration, the
  time step \<open>dt\<close> and the diffusion number \<open>r\<close> of the state it returns are those of
  the state it was given.
\<close>

theorem actualizar_paso_frame:
  "actualizar_paso s = Inr s' \<Longrightarrow>
     self_cfg s' = self_cfg s \<and> self_dt s' = self_dt s \<and> self_r s' = self_r s"
  by (auto simp: actualizar_paso_def Let_def bindE_def split: sum.splits)

theorem actualizar_paso_frame_witness:
  "\<exists>s'. actualizar_paso
     \<lparr> self_cfg = cfg_default\<lparr>cfg_n := 3\<rparr>, self_dt = 19 / 80, self_r = 19 / 80,
       self_u = [[30, 100, 30], [30, 0, 30], [30, 0, 30]], self_iteracion = 0 \<rparr> = Inr s'
     \<and> self_cfg s' = cfg_default\<lparr>cfg_n := 3\<rparr> \<and> self_dt s' = 19 / 80 \<and> self_r s' = 19 / 80
     \<and> self_u s' = [[30, 100, 30], [30, 38, 30], [30, 0, 30]] \<and> self_iteracion s' = 1"
  using actualizar_paso_frame [OF paso_ejemplo] paso_ejemplo by simp

subsection \<open>The command line\<close>

lemma parsear_argumentos_Inr:
  assumes "parsear_argumentos argv = Inr c"
  shows "\<exists>args. parse_args argv args_default = Inr args
     \<and> c = \<lparr> cfg_n = args_n args, alpha = args_alpha args, dx = args_dx args,
                  pasos = args_pasos args, cada_render = args_cada_render args,
                  pausa = args_pausa args,
                  factor_seguridad_cfl = args_factor_seguridad_cfl args,
                  t_arriba = 100, t_abajo = 0, t_izquierda = 30, t_derecha = 30 \<rparr>
     \<and> 3 \<le> args_n args \<and> 0 < args_alpha args \<and> 0 < args_dx args \<and> 0 < args_pasos args
     \<and> 0 < args_cada_render args
     \<and> 0 < args_factor_seguridad_cfl args \<and> args_factor_seguridad_cfl args \<le> 1"
proof (cases "parse_args argv args_default")
  case (Inl e)
  then show ?thesis using assms by (simp add: parsear_argumentos_def)
next
  case (Inr args)
  then show ?thesis
    using assms by (simp add: parsear_argumentos_def split: if_splits)
qed

text \<open>An ambiguous prefix and a prefix of \<open>--help\<close> end the process.\<close>

lemma parsear_argumentos_ambigua: "parsear_argumentos [(''--pa'', Entero 10)] = Inl SystemExit"
  by (simp add: parsear_argumentos_def resolver_def opciones_def)

lemma parsear_argumentos_ayuda: "parsear_argumentos [(''--h'', Entero 10)] = Inl SystemExit"
  by (simp add: parsear_argumentos_def resolver_def opciones_def)

text \<open>
  C6, as claimed, fails: a command line that supplies a boundary temperature builds no
  configuration at all, argparse ends the process on the unknown flag.
\<close>

theorem parsear_argumentos_contornos_counterexample:
  "parsear_argumentos [(''--t-arriba'', Decimal 50)] = Inl SystemExit"
  by (simp add: parsear_argumentos_def resolver_def opciones_def)

text \<open>
  C6, amended. The command line has no option for the boundary temperatures: every
  configuration \<open>parsear_argumentos\<close> returns carries the dataclass's defaults
  top = 100, bottom = 0, left = 30, right = 30.
\<close>

theorem parsear_argumentos_contornos:
  assumes "parsear_argumentos argv = Inr c"
  shows "t_arriba c = 100 \<and> t_abajo c = 0 \<and> t_izquierda c = 30 \<and> t_derecha c = 30"
  using parsear_argumentos_Inr [OF assms] by (elim exE conjE) simp

theorem parsear_argumentos_contornos_witness:
  "parsear_argumentos [(''--n'', Entero 5), (''--pas'', Entero 10), (''--a'', Decimal (1 / 2))]
     = Inr (cfg_default\<lparr>cfg_n := 5, alpha := 1 / 2, pasos := 10\<rparr>)
   \<and> t_arriba (cfg_default\<lparr>cfg_n := 5, alpha := 1 / 2, pasos := 10\<rparr>) = 100
   \<and> t_abajo (cfg_default\<lparr>cfg_n := 5, alpha := 1 / 2, pasos := 10\<rparr>) = 0
   \<and> t_izquierda (cfg_default\<lparr>cfg_n := 5, alpha := 1 / 2, pasos := 10\<rparr>) = 30
   \<and> t_derecha (cfg_default\<lparr>cfg_n := 5, alpha := 1 / 2, pasos := 10\<rparr>) = 30"
proof -
  have e: "parsear_argumentos
       [(''--n'', Entero 5), (''--pas'', Entero 10), (''--a'', Decimal (1 / 2))]
     = Inr (cfg_default\<lparr>cfg_n := 5, alpha := 1 / 2, pasos := 10\<rparr>)"
    by (simp add: parsear_argumentos_def resolver_def opciones_def args_default_def
        cfg_default_def tipo_int_def tipo_float_def)
  from parsear_argumentos_contornos [OF e] e show ?thesis by (intro conjI) simp_all
qed

subsection \<open>The edges along a run\<close>



lemma repetir_paso_inv:
  assumes step: "\<And>s. I s \<Longrightarrow> \<exists>s'. actualizar_paso s = Inr s' \<and> I s'"
    and "I s"
  shows "\<exists>s'. repetir_paso k s = Inr s' \<and> I s'"
  using assms(2)
proof (induction k arbitrary: s)
  case 0
  then show ?case by simp
next
  case (Suc k)
  from step [OF Suc.prems] obtain s1 where s1: "actualizar_paso s = Inr s1" "I s1" by blast
  from Suc.IH [OF s1(2)] show ?case by (simp add: s1(1))
qed





subsection \<open>The run loop\<close>

lemma bindE_eq_Inr: "bindE m f = Inr y \<longleftrightarrow> (\<exists>x. m = Inr x \<and> f x = Inr y)"
  by (cases m) simp_all

lemma actualizar_paso_Inr:
  assumes "actualizar_paso s = Inr s'"
  shows "self_cfg s' = self_cfg s" and "self_iteracion s' = self_iteracion s + 1"
  using assms by (auto simp: actualizar_paso_def Let_def bindE_eq_Inr)

lemma renderizar_terminal_Inr:
  assumes "renderizar_terminal env s = Inr f"
  shows "f_iteracion f = self_iteracion s" and "f_u f = self_u s"
  using assms by (auto simp: renderizar_terminal_def bindE_eq_Inr)

lemma bucle_Inr:
  assumes "bucle env k s out = Inr (s', out')"
  shows "repetir_paso k s = Inr s' \<and> self_cfg s' = self_cfg s
     \<and> self_iteracion s' = self_iteracion s + int k
     \<and> map f_iteracion out' = map f_iteracion out @
          filter (\<lambda>i. i mod cada_render (self_cfg s) = 0 \<or> i = 1)
            [self_iteracion s + 1 .. self_iteracion s + int k]"
  using assms
proof (induction k arbitrary: s out)
  case 0
  then show ?case by simp
next
  case (Suc k)
  let ?cr = "cada_render (self_cfg s)"
  let ?it = "self_iteracion s + 1"
  from Suc.prems obtain s1 resto where
    s1: "actualizar_paso s = Inr s1"
    and m: "py_mod (self_iteracion s1) (cada_render (self_cfg s1)) = Inr resto"
    and r: "(if resto = 0 \<or> self_iteracion s1 = 1
       then bindE (renderizar_terminal env s1) (\<lambda>f.
            bindE (time_sleep env (pausa (self_cfg s1))) (\<lambda>_.
              bucle env k s1 (out @ [f])))
       else bucle env k s1 out) = Inr (s', out')"
    unfolding bucle.simps bindE_eq_Inr by blast
  have c1: "self_cfg s1 = self_cfg s" and i1: "self_iteracion s1 = ?it"
    using actualizar_paso_Inr [OF s1] by simp_all
  have re: "resto = ?it mod ?cr"
    using m by (auto simp: py_mod_def c1 i1 split: if_splits)
  have up: "[self_iteracion s + 1 .. self_iteracion s + int (Suc k)]
      = ?it # [self_iteracion s1 + 1 .. self_iteracion s1 + int k]"
    by (subst upto_rec1) (simp_all add: i1 add.commute add.left_commute)
  have rk: "repetir_paso (Suc k) s = repetir_paso k s1" by (simp add: s1)
  show ?case
  proof (cases "resto = 0 \<or> self_iteracion s1 = 1")
    case True
    then have P: "?it mod ?cr = 0 \<or> ?it = 1" using re i1 by simp
    from r True obtain f where
      f: "renderizar_terminal env s1 = Inr f"
      and b: "bucle env k s1 (out @ [f]) = Inr (s', out')"
      by (auto simp: bindE_eq_Inr)
    have fi: "f_iteracion f = ?it" using renderizar_terminal_Inr(1) [OF f] i1 by simp
    from Suc.IH [OF b] have
      h: "repetir_paso k s1 = Inr s'" "self_cfg s' = self_cfg s1"
        "self_iteracion s' = self_iteracion s1 + int k"
        "map f_iteracion out' = map f_iteracion (out @ [f]) @
          filter (\<lambda>i. i mod cada_render (self_cfg s1) = 0 \<or> i = 1)
            [self_iteracion s1 + 1 .. self_iteracion s1 + int k]"
      by simp_all
    have l: "map f_iteracion out' = map f_iteracion out @
          filter (\<lambda>i. i mod ?cr = 0 \<or> i = 1)
            [self_iteracion s + 1 .. self_iteracion s + int (Suc k)]"
      unfolding up h(4) using P by (simp add: fi c1)
    have "self_iteracion s' = self_iteracion s + int (Suc k)" using h(3) i1 by simp
    with rk h(1) h(2) c1 l show ?thesis by simp
  next
    case False
    then have P: "\<not> (?it mod ?cr = 0 \<or> ?it = 1)" using re i1 by simp
    from r False have b: "bucle env k s1 out = Inr (s', out')" by simp
    from Suc.IH [OF b] have
      h: "repetir_paso k s1 = Inr s'" "self_cfg s' = self_cfg s1"
        "self_iteracion s' = self_iteracion s1 + int k"
        "map f_iteracion out' = map f_iteracion out @
          filter (\<lambda>i. i mod cada_render (self_cfg s1) = 0 \<or> i = 1)
            [self_iteracion s1 + 1 .. self_iteracion s1 + int k]"
      by simp_all
    have l: "map f_iteracion out' = map f_iteracion out @
          filter (\<lambda>i. i mod ?cr = 0 \<or> i = 1)
            [self_iteracion s + 1 .. self_iteracion s + int (Suc k)]"
      unfolding up h(4) using P by (simp add: c1)
    have "self_iteracion s' = self_iteracion s + int (Suc k)" using h(3) i1 by simp
    with rk h(1) h(2) c1 l show ?thesis by simp
  qed
qed

lemma bucle_ok:
  assumes "forma N N (self_u s)" and "2 \<le> N" and "0 < cada_render (self_cfg s)"
    and "time_sleep env (pausa (self_cfg s)) = Inr ()"
    and "\<And>j sj. j \<le> k \<Longrightarrow> repetir_paso j s = Inr sj \<Longrightarrow>
           \<exists>f. renderizar_terminal env sj = Inr f"
  shows "\<exists>s' out'. bucle env k s out = Inr (s', out')"
  using assms
proof (induction k arbitrary: s out)
  case 0
  then show ?case by simp
next
  case (Suc k)
  obtain s1 where s1: "actualizar_paso s = Inr s1"
    using actualizar_paso_ok [OF Suc.prems(1,2,2)] by simp
  have c1: "self_cfg s1 = self_cfg s" using actualizar_paso_Inr(1) [OF s1] .
  have f1: "forma N N (self_u s1)"
    by (rule actualizar_paso_forma [OF Suc.prems(1,2,2) s1])
  have m: "py_mod (self_iteracion s1) (cada_render (self_cfg s1))
      = Inr (self_iteracion s1 mod cada_render (self_cfg s1))"
    using Suc.prems(3) by (simp add: py_mod_def c1)
  have sl: "time_sleep env (pausa (self_cfg s1)) = Inr ()"
    using Suc.prems(4) by (simp add: c1)
  have "repetir_paso (Suc 0) s = Inr s1" by (simp add: s1)
  then obtain f where f: "renderizar_terminal env s1 = Inr f"
    using Suc.prems(5) [of "Suc 0" s1] by auto
  have p1: "0 < cada_render (self_cfg s1)" using Suc.prems(3) c1 by simp
  have r1: "\<exists>f. renderizar_terminal env sj = Inr f"
    if "j \<le> k" "repetir_paso j s1 = Inr sj" for j sj
    using Suc.prems(5) [of "Suc j" sj] that by (simp add: s1)
  have ih: "\<exists>s' out'. bucle env k s1 out = Inr (s', out')" for out
  proof (rule Suc.IH [OF f1 Suc.prems(2) p1 sl])
    fix j sj assume "j \<le> k" "repetir_paso j s1 = Inr sj"
    then show "\<exists>f. renderizar_terminal env sj = Inr f" by (rule r1)
  qed
  show ?case
    unfolding bucle.simps(2) s1 bindE_Inr m
    using ih [of out] ih [of "out @ [f]"] by (simp add: f sl)
qed

lemma concat_forma: "forma a b m \<Longrightarrow> 0 < a \<Longrightarrow> 0 < b \<Longrightarrow> concat m \<noteq> []"
  by (cases m) (auto simp: forma_def)


lemma mapE_ok:
  assumes "\<And>x. \<exists>y. f x = Inr y"
  shows "\<exists>ys. mapE f xs = Inr ys"
proof (induction xs)
  case Nil
  show ?case by simp
next
  case (Cons x xs)
  from assms obtain y where "f x = Inr y" by blast
  moreover from Cons.IH obtain ys where "mapE f xs = Inr ys" by blast
  ultimately show ?case by simp
qed

lemma renderizar_terminal_ok:
  assumes "concat (self_u s) \<noteq> []"
    and "\<And>temp t_min t_max. \<exists>b. bloque_por_temperatura env temp t_min t_max = Inr b"
  shows "\<exists>f. renderizar_terminal env s = Inr f"
proof -
  obtain x xs where c: "concat (self_u s) = x # xs"
    using assms(1) by (cases "concat (self_u s)") auto
  have "\<exists>ys. mapE (\<lambda>temp. bloque_por_temperatura env temp lo hi) fila = Inr ys" for lo hi fila
    by (rule mapE_ok) (rule assms(2))
  then have "\<exists>filas. mapE (\<lambda>fila. mapE (\<lambda>temp. bloque_por_temperatura env temp lo hi) fila)
      (self_u s) = Inr filas" for lo hi
    by (rule mapE_ok)
  then obtain filas where
    "mapE (\<lambda>fila. mapE (\<lambda>temp. bloque_por_temperatura env temp (fold min xs x) (fold max xs x)) fila)
      (self_u s) = Inr filas"
    by blast
  then show ?thesis by (simp add: renderizar_terminal_def np_min_def np_max_def c)
qed

lemma repetir_paso_forma:
  assumes "forma N N (self_u s)" and "2 \<le> N" and "repetir_paso k s = Inr sk"
  shows "forma N N (self_u sk)"
proof -
  have "\<exists>s'. actualizar_paso t = Inr s' \<and> forma N N (self_u s')"
    if ft: "forma N N (self_u t)" for t
  proof -
    obtain s' where s': "actualizar_paso t = Inr s'"
      using actualizar_paso_ok [OF ft assms(2,2)] by simp
    with actualizar_paso_forma [OF ft assms(2,2) s'] show ?thesis by blast
  qed
  from repetir_paso_inv [of "\<lambda>t. forma N N (self_u t)", OF this assms(1), of k]
  show ?thesis using assms(3) by auto
qed

text \<open>
  C5, as claimed, fails: with \<open>pasos = 10\<close>, \<open>cada_render = 5\<close> and the pause
  \<open>- 1\<close> (which \<open>parsear_argumentos\<close> does not exclude) the run makes one step,
  renders iteration 1, and \<open>time.sleep(-1)\<close> raises ValueError: \<open>ejecutar\<close> does not
  call the step ten times. The \<open>time_sleep\<close> used here is \<open>time.sleep\<close> on a
  negative argument and on the default pause; the block drawn is a placeholder.
\<close>

theorem ejecutar_fotogramas_counterexample:
  "ejecutar
     \<lparr> time_sleep = (\<lambda>p. if p < 0 then Inl ValueError else Inr ()),
       bloque_por_temperatura = (\<lambda>temp t_min t_max. Inr ''##'') \<rparr>
     \<lparr> self_cfg = cfg_default\<lparr>cfg_n := 3, pasos := 10, pausa := - 1\<rparr>,
       self_dt = 19 / 80, self_r = 19 / 80,
       self_u = [[30, 100, 30], [30, 0, 30], [30, 0, 30]], self_iteracion = 0 \<rparr>
   = Inl ValueError"
proof -
  let ?env = "\<lparr> time_sleep = (\<lambda>p. if p < 0 then Inl ValueError else Inr ()),
       bloque_por_temperatura = (\<lambda>temp t_min t_max. Inr ''##'') \<rparr>"
  let ?c = "cfg_default\<lparr>cfg_n := 3, pasos := 10, pausa := - 1\<rparr>"
  let ?s = "\<lparr> self_cfg = ?c, self_dt = 19 / 80, self_r = 19 / 80,
       self_u = [[30, 100, 30], [30, 0, 30], [30, 0, 30]], self_iteracion = 0 \<rparr>"
  let ?s1 = "\<lparr> self_cfg = ?c, self_dt = 19 / 80, self_r = 19 / 80,
       self_u = [[30, 100, 30], [30, 38, 30], [30, 0, 30]], self_iteracion = 1 \<rparr>"
  have s1: "actualizar_paso ?s = Inr ?s1"
    by (simp add: actualizar_paso_def estencil_def set_slice2_def py_slice2_def py_slice_def
      set_slice_def slice_start_def slice_stop_def slice_bound_def mat_add_def mat_sub_def
      esc_mul_def aplicar_contornos_def set_fila_def set_columna_def py_index_def ncols_def
      llenar_fila_def llenar_columna_def cfg_default_def Let_def)
  have m: "py_mod (self_iteracion ?s1) (cada_render (self_cfg ?s1)) = Inr 1"
    by (simp add: py_mod_def cfg_default_def)
  have f: "renderizar_terminal ?env ?s1 =
      Inr \<lparr> f_iteracion = 1, f_u = [[30, 100, 30], [30, 38, 30], [30, 0, 30]],
            f_filas = [''######'', ''######'', ''######''] \<rparr>"
    by (simp add: renderizar_terminal_def np_min_def np_max_def)
  have sl: "time_sleep ?env (pausa (self_cfg ?s1)) = Inl ValueError"
    by (simp add: cfg_default_def)
  have n: "nat (pasos (self_cfg ?s)) = Suc 9" by (simp add: cfg_default_def)
  have "bucle ?env (Suc 9) ?s [] = Inl ValueError"
    unfolding bucle.simps(2) s1 bindE_Inr m using f sl by simp
  then show ?thesis unfolding ejecutar_def n by simp
qed

text \<open>
  C5, amended. On a fresh engine (iteration counter 0) with \<open>pasos > 0\<close> and
  \<open>cada_render > 0\<close>: if \<open>time.sleep\<close> accepts the pause and no render of a state of
  the run raises (the array being N x N, N \<ge> 2), \<open>ejecutar\<close> returns; and whenever it
  returns, the state it leaves is the state after exactly \<open>pasos\<close> steps, and the
  frames rendered are, in order, those of the iterations \<open>k\<close> in \<open>1 .. pasos\<close> with
  \<open>k % cada_render == 0\<close> or \<open>k == 1\<close>, then one more frame of iteration \<open>pasos\<close>
  that shows the final array, also when iteration \<open>pasos\<close> was already rendered in
  the loop.
\<close>

theorem ejecutar_fotogramas:
  assumes "self_iteracion s = 0" and "0 < pasos (self_cfg s)"
    and "0 < cada_render (self_cfg s)"
  shows "(forma N N (self_u s) \<and> 2 \<le> N \<and> time_sleep env (pausa (self_cfg s)) = Inr ()
          \<and> (\<forall>k sk. k \<le> nat (pasos (self_cfg s)) \<and> repetir_paso k s = Inr sk
                \<longrightarrow> (\<exists>f. renderizar_terminal env sk = Inr f))
        \<longrightarrow> (\<exists>s' out. ejecutar env s = Inr (s', out)))
     \<and> (\<forall>s' out. ejecutar env s = Inr (s', out) \<longrightarrow>
          repetir_paso (nat (pasos (self_cfg s))) s = Inr s'
          \<and> self_iteracion s' = pasos (self_cfg s)
          \<and> map f_iteracion out =
              filter (\<lambda>k. k mod cada_render (self_cfg s) = 0 \<or> k = 1) [1 .. pasos (self_cfg s)]
                @ [pasos (self_cfg s)]
          \<and> f_u (last out) = self_u s')"
proof (rule conjI)
  let ?p = "pasos (self_cfg s)"
  show "forma N N (self_u s) \<and> 2 \<le> N \<and> time_sleep env (pausa (self_cfg s)) = Inr ()
          \<and> (\<forall>k sk. k \<le> nat ?p \<and> repetir_paso k s = Inr sk
                \<longrightarrow> (\<exists>f. renderizar_terminal env sk = Inr f))
        \<longrightarrow> (\<exists>s' out. ejecutar env s = Inr (s', out))"
  proof (rule impI)
  assume h: "forma N N (self_u s) \<and> 2 \<le> N \<and> time_sleep env (pausa (self_cfg s)) = Inr ()
          \<and> (\<forall>k sk. k \<le> nat ?p \<and> repetir_paso k s = Inr sk
                \<longrightarrow> (\<exists>f. renderizar_terminal env sk = Inr f))"
  then have r: "\<exists>f. renderizar_terminal env sk = Inr f"
    if "k \<le> nat ?p" "repetir_paso k s = Inr sk" for k sk
    using that by blast
  have "\<exists>s' out'. bucle env (nat ?p) s [] = Inr (s', out')"
  proof (rule bucle_ok [OF h [THEN conjunct1] h [THEN conjunct2, THEN conjunct1] assms(3)
        h [THEN conjunct2, THEN conjunct2, THEN conjunct1]])
    fix j sj assume "j \<le> nat ?p" "repetir_paso j s = Inr sj"
    then show "\<exists>f. renderizar_terminal env sj = Inr f" by (rule r)
  qed
  then obtain s' out' where b: "bucle env (nat ?p) s [] = Inr (s', out')" by blast
  from bucle_Inr [OF b] have "repetir_paso (nat ?p) s = Inr s'" by simp
  from r [OF _ this] obtain f where "renderizar_terminal env s' = Inr f" by auto
  then show "\<exists>s' out. ejecutar env s = Inr (s', out)"
    by (simp add: ejecutar_def b)
  qed
next
  let ?p = "pasos (self_cfg s)"
  show "\<forall>s' out. ejecutar env s = Inr (s', out) \<longrightarrow>
          repetir_paso (nat ?p) s = Inr s'
          \<and> self_iteracion s' = ?p
          \<and> map f_iteracion out =
              filter (\<lambda>k. k mod cada_render (self_cfg s) = 0 \<or> k = 1) [1 .. ?p] @ [?p]
          \<and> f_u (last out) = self_u s'"
  proof (intro allI impI)
  fix s' out
  assume e: "ejecutar env s = Inr (s', out)"
  then obtain t out' f where
    b: "bucle env (nat ?p) s [] = Inr (t, out')"
    and f: "renderizar_terminal env t = Inr f" and o: "s' = t" "out = out' @ [f]"
    by (auto simp: ejecutar_def bindE_eq_Inr)
  from bucle_Inr [OF b] have
    k: "repetir_paso (nat ?p) s = Inr t" "self_iteracion t = self_iteracion s + int (nat ?p)"
      "map f_iteracion out' = map f_iteracion ([] :: fotograma list) @
          filter (\<lambda>i. i mod cada_render (self_cfg s) = 0 \<or> i = 1)
            [self_iteracion s + 1 .. self_iteracion s + int (nat ?p)]"
    by simp_all
  have it: "self_iteracion t = ?p" using k(2) assms(1,2) by simp
  have l: "map f_iteracion out' =
      filter (\<lambda>k. k mod cada_render (self_cfg s) = 0 \<or> k = 1) [1 .. ?p]"
    using k(3) assms(1,2) by simp
  have fi: "f_iteracion f = ?p" "f_u f = self_u t"
    using renderizar_terminal_Inr [OF f] it by simp_all
  show "repetir_paso (nat ?p) s = Inr s'
          \<and> self_iteracion s' = ?p
          \<and> map f_iteracion out =
              filter (\<lambda>k. k mod cada_render (self_cfg s) = 0 \<or> k = 1) [1 .. ?p] @ [?p]
          \<and> f_u (last out) = self_u s'"
    unfolding o using k(1) it l fi by simp
  qed
qed

theorem ejecutar_fotogramas_witness:
  "\<exists>s' out. ejecutar
       \<lparr> time_sleep = (\<lambda>p. if p < 0 then Inl ValueError else Inr ()),
         bloque_por_temperatura = (\<lambda>temp t_min t_max. Inr ''##'') \<rparr>
       \<lparr> self_cfg = cfg_default\<lparr>cfg_n := 3, pasos := 10\<rparr>, self_dt = 19 / 80, self_r = 19 / 80,
         self_u = [[30, 100, 30], [30, 0, 30], [30, 0, 30]], self_iteracion = 0 \<rparr>
       = Inr (s', out)
     \<and> self_iteracion s' = 10 \<and> map f_iteracion out = [1, 5, 10, 10]"
proof -
  let ?env = "\<lparr> time_sleep = (\<lambda>p. if p < 0 then Inl ValueError else Inr ()),
       bloque_por_temperatura = (\<lambda>temp t_min t_max. Inr ''##'') \<rparr>"
  let ?s = "\<lparr> self_cfg = cfg_default\<lparr>cfg_n := 3, pasos := 10\<rparr>, self_dt = 19 / 80,
         self_r = 19 / 80, self_u = [[30, 100, 30], [30, 0, 30], [30, 0, 30]],
         self_iteracion = 0 \<rparr>"
  have f: "forma 3 3 (self_u ?s)" by (simp add: forma_def)
  have p: "self_iteracion ?s = 0" "0 < pasos (self_cfg ?s)" "0 < cada_render (self_cfg ?s)"
    by (simp_all add: cfg_default_def)
  have sl: "time_sleep ?env (pausa (self_cfg ?s)) = Inr ()" by (simp add: cfg_default_def)
  have r: "\<exists>fr. renderizar_terminal ?env sk = Inr fr"
    if "repetir_paso k ?s = Inr sk" for k sk
  proof (rule renderizar_terminal_ok)
    have "forma 3 3 (self_u sk)" by (rule repetir_paso_forma [OF f _ that]) simp
    then show "concat (self_u sk) \<noteq> []" by (rule concat_forma) simp_all
  next
    fix temp t_min t_max :: real
    show "\<exists>b. bloque_por_temperatura ?env temp t_min t_max = Inr b" by simp
  qed
  have v: "pasos (self_cfg ?s) = 10" "cada_render (self_cfg ?s) = 5"
    by (simp_all add: cfg_default_def)
  have l: "filter (\<lambda>k. k mod 5 = 0 \<or> k = 1) [1 .. 10 :: int] = [1, 5, 10]"
    by code_simp
  note t = ejecutar_fotogramas [OF p, of 3 ?env]
  from t [THEN conjunct1] f sl r obtain s' out where e: "ejecutar ?env ?s = Inr (s', out)"
    by auto
  from t [THEN conjunct2, rule_format, OF e] have
    a: "self_iteracion s' = 10" "map f_iteracion out = [1, 5, 10, 10]"
    unfolding v l by simp_all
  show ?thesis by (intro exI [of _ s'] exI [of _ out] conjI e a)
qed

end
